theory Spec2Isabelle
  imports Main
begin

section \<open>The document tree and the store\<close>

text \<open>
  The hooks of \<^verbatim>\<open>core/components/hooks/node.ts\<close> read a document tree out of a global
  store. A node is a row or a cell; a row holds cells, a cell optionally holds rows and
  optionally refers to a plugin. The last ancestor of a node is the root document, which
  has an id and rows as a cell has. JavaScript's \<^verbatim>\<open>null\<close> and \<^verbatim>\<open>undefined\<close> are both
  \<open>None\<close>: the operators the hooks apply to such values (\<^verbatim>\<open>?.\<close>, \<^verbatim>\<open>??\<close>, \<^verbatim>\<open>!\<close>,
  \<^verbatim>\<open>Boolean\<close>, a conditional) do not tell the two apart. Reading a property of \<^verbatim>\<open>null\<close>
  or \<^verbatim>\<open>undefined\<close> throws a \<^verbatim>\<open>TypeError\<close>; every hook therefore returns
  \<open>js_error + 'a\<close>, with \<open>Inl\<close> for the exception.
\<close>

datatype js_error = TypeError

record pluginRef =
  pluginRef_id :: string
  version :: nat

datatype 'd row =
  Row (row_id: string) (cells: "'d cell list")
and 'd cell =
  Cell (cell_id: string) (rows: "'d row list option") (plugin: "pluginRef option")
    (hasInlineNeighbour: "string option") (inline: "string option")
    (cell_size: "nat option") (dataI18n: 'd)

datatype 'd node = RowNode "'d row" | CellNode "'d cell"

text \<open>\<^verbatim>\<open>node.id\<close>, \<^verbatim>\<open>node.cells\<close>, \<^verbatim>\<open>node.rows\<close> and \<^verbatim>\<open>node.plugin\<close> on a node that is
  not null: a property the object does not have reads as \<^verbatim>\<open>undefined\<close>.\<close>

fun node_id :: "'d node \<Rightarrow> string" where
  "node_id (RowNode r) = row_id r"
| "node_id (CellNode c) = cell_id c"

fun node_cells :: "'d node \<Rightarrow> 'd cell list option" where
  "node_cells (RowNode r) = Some (cells r)"
| "node_cells (CellNode c) = None"

fun node_rows :: "'d node \<Rightarrow> 'd row list option" where
  "node_rows (RowNode r) = None"
| "node_rows (CellNode c) = rows c"

text \<open>The store state: \<^verbatim>\<open>state.reactPage.hover\<close> is read by this file, the rest of the
  state (the record's extension) only through \<^verbatim>\<open>findNodeInState\<close>.\<close>

record 'pos hover_t =
  hover_nodeId :: string
  hover_position :: 'pos

record 'pos reactPage_t =
  hover :: "'pos hover_t option"

record ('pos, 'z) rootState =
  reactPage :: "('pos, 'z) reactPage_t_scheme"

text \<open>What \<^verbatim>\<open>findNodeInState\<close> returns when it finds the node.\<close>

record 'd nodeWithAncestors =
  node :: "'d node"
  ancestors :: "'d node list"

section \<open>The modules this file imports\<close>

text \<open>
  The helpers imported from other modules are parameters of the model, collected in one
  record: \<^verbatim>\<open>findNodeInState\<close> (selector/editable), the value of \<^verbatim>\<open>isRow(null)\<close>
  (types/node: whether the type guard throws on null or answers is not fixed here),
  \<^verbatim>\<open>getDropLevels\<close>, \<^verbatim>\<open>getCellData\<close>, \<^verbatim>\<open>getAvailablePlugins\<close> (utils), \<^verbatim>\<open>useLang\<close>
  and \<^verbatim>\<open>useRenderOption('cellPlugins')\<close>.
\<close>

record 'dat ancestorInfo =
  info_pluginId :: "string option"
  info_data :: "'dat option"

record cellPlugin =
  cellPlugin_id :: string

record ('st, 'd, 'lv, 'dat, 'p) env =
  findNodeInState :: "'st \<Rightarrow> string option \<Rightarrow> 'd nodeWithAncestors option"
  isRow_null :: "js_error + bool"
  getDropLevels :: "'d node \<Rightarrow> 'd node list \<Rightarrow> 'lv"
  getCellData :: "'d cell option \<Rightarrow> string \<Rightarrow> 'dat option"
  getAvailablePlugins ::
    "'p cellPlugin_scheme list \<Rightarrow> 'dat ancestorInfo list \<Rightarrow> 'p cellPlugin_scheme list"
  useLang :: string
  useRenderOption_cellPlugins :: "'p cellPlugin_scheme list"

text \<open>Modelled from the spec: \<^verbatim>\<open>isRow\<close> (types/node) is not part of this file. A node is
  a row or a cell and \<^verbatim>\<open>isRow\<close> is the type guard that tells them apart; on \<^verbatim>\<open>null\<close> it
  gives whatever the environment says.\<close>

fun isRow :: "('st, 'd, 'lv, 'dat, 'p) env \<Rightarrow> 'd node option \<Rightarrow> js_error + bool" where
  "isRow env None = isRow_null env"
| "isRow env (Some (RowNode r)) = Inr True"
| "isRow env (Some (CellNode c)) = Inr False"

text \<open>Modelled from the spec: \<^verbatim>\<open>deepEquals\<close> (utils/deepEquals) is not part of this file.
  It is deep, structural equality of two values, which on the embedded values is
  equality.\<close>

definition deepEquals :: "'a \<Rightarrow> 'a \<Rightarrow> bool" where
  "deepEquals a b = (a = b)"

text \<open>Modelled from the spec: \<^verbatim>\<open>useSelector\<close> (reduxConnect) is not part of this file.
  It is memoized selection from the store: the hook instance keeps the selection it
  returned last (\<open>latest\<close>, \<open>None\<close> before the first render), runs the selector on the
  store state, and returns the selection it kept when the equality function accepts the
  new one against it, the new one otherwise. An exception of the selector is an
  exception of the hook.\<close>

definition useSelector ::
  "('st \<Rightarrow> js_error + 'a) \<Rightarrow> ('a \<Rightarrow> 'a \<Rightarrow> bool) \<Rightarrow> 'a option \<Rightarrow> 'st \<Rightarrow> js_error + 'a" where
  "useSelector selector equalityFn latest state =
     (case selector state of
        Inl e \<Rightarrow> Inl e
      | Inr newSelectedState \<Rightarrow>
          (case latest of
             None \<Rightarrow> Inr newSelectedState
           | Some latestSelectedState \<Rightarrow>
               if equalityFn newSelectedState latestSelectedState
               then Inr latestSelectedState else Inr newSelectedState))"

text \<open>The default equality of \<^verbatim>\<open>useSelector\<close>, \<^verbatim>\<open>===\<close>, on values without identity
  (strings, enum members, null).\<close>

definition refEquality :: "'a \<Rightarrow> 'a \<Rightarrow> bool" where
  "refEquality a b = (a = b)"

section \<open>The hooks\<close>

type_synonym ('d, 'a) NodeSelector = "'d node option \<Rightarrow> 'd node list \<Rightarrow> js_error + 'a"

text \<open>The function \<^verbatim>\<open>useNodeProps\<close> hands to \<^verbatim>\<open>useSelector\<close>.\<close>

definition nodeSelection ::
  "('st, 'd, 'lv, 'dat, 'p) env \<Rightarrow> string option \<Rightarrow> ('d, 'a) NodeSelector \<Rightarrow> 'st \<Rightarrow> js_error + 'a" where
  "nodeSelection env nodeId selector state =
     (case findNodeInState env state nodeId of
        None \<Rightarrow> selector None []
      | Some result \<Rightarrow> selector (Some (node result)) (ancestors result))"

definition useNodeProps ::
  "('st, 'd, 'lv, 'dat, 'p) env \<Rightarrow> 'a option \<Rightarrow> 'st \<Rightarrow> string option \<Rightarrow> ('d, 'a) NodeSelector
     \<Rightarrow> js_error + 'a" where
  "useNodeProps env latest state nodeId selector =
     useSelector (nodeSelection env nodeId selector) deepEquals latest state"

type_synonym ('d, 'a) CellSelector = "'d cell option \<Rightarrow> 'd node list \<Rightarrow> js_error + 'a"

text \<open>A node id is falsy when it is null, undefined or the empty string.\<close>

definition falsy :: "string option \<Rightarrow> bool" where
  "falsy nodeId = (nodeId = None \<or> nodeId = Some [])"

text \<open>\<^verbatim>\<open>useCellProps\<close> returns \<^verbatim>\<open>null\<close> (\<open>Inr None\<close>) for a falsy id before it calls any
  hook. The test \<^verbatim>\<open>node && !isRow(node)\<close> applies \<^verbatim>\<open>isRow\<close> to a node that is not null,
  where it is the case distinction on the node.\<close>

definition cellSelection :: "('d, 'a) CellSelector \<Rightarrow> ('d, 'a) NodeSelector" where
  "cellSelection selector n anc =
     (case n of
        Some (CellNode c) \<Rightarrow> selector (Some c) anc
      | Some (RowNode r) \<Rightarrow> selector None anc
      | None \<Rightarrow> selector None anc)"

definition useCellProps ::
  "('st, 'd, 'lv, 'dat, 'p) env \<Rightarrow> 'a option \<Rightarrow> 'st \<Rightarrow> string option \<Rightarrow> ('d, 'a) CellSelector
     \<Rightarrow> js_error + 'a option" where
  "useCellProps env latest state nodeId selector =
     (if falsy nodeId then Inr None
      else case useNodeProps env latest state nodeId (cellSelection selector) of
             Inl e \<Rightarrow> Inl e
           | Inr t \<Rightarrow> Inr (Some t))"

text \<open>\<^verbatim>\<open>useNodeHoverPosition\<close>: \<^verbatim>\<open>hover?.nodeId === nodeId ? hover?.position : null\<close>, with
  the default equality of \<^verbatim>\<open>useSelector\<close>.\<close>

definition hoverPositionSelection :: "string \<Rightarrow> ('pos, 'z) rootState \<Rightarrow> js_error + 'pos option" where
  "hoverPositionSelection nodeId state =
     Inr (if map_option hover_nodeId (hover (reactPage state)) = Some nodeId
          then map_option hover_position (hover (reactPage state))
          else None)"

definition useNodeHoverPosition ::
  "'pos option option \<Rightarrow> ('pos, 'z) rootState \<Rightarrow> string \<Rightarrow> js_error + 'pos option" where
  "useNodeHoverPosition latest state nodeId =
     useSelector (hoverPositionSelection nodeId) refEquality latest state"

text \<open>\<^verbatim>\<open>useNodeAsHoverTarget\<close>. The fields of a cell read on a node; \<^verbatim>\<open>isRow(node)\<close> is
  evaluated three times in the source, on the same node.\<close>

record 'lv HoverTarget =
  target_id :: string
  ancestorIds :: "string list"
  target_hasInlineNeighbour :: "string option"
  target_inline :: "string option"
  levels :: 'lv
  pluginId :: "string option"

fun node_hasInlineNeighbour :: "'d node \<Rightarrow> string option" where
  "node_hasInlineNeighbour (RowNode r) = None"
| "node_hasInlineNeighbour (CellNode c) = hasInlineNeighbour c"

fun node_inline :: "'d node \<Rightarrow> string option" where
  "node_inline (RowNode r) = None"
| "node_inline (CellNode c) = inline c"

fun node_plugin :: "'d node \<Rightarrow> pluginRef option" where
  "node_plugin (RowNode r) = None"
| "node_plugin (CellNode c) = plugin c"

definition hoverTargetSelection ::
  "('st, 'd, 'lv, 'dat, 'p) env \<Rightarrow> ('d, 'lv HoverTarget option) NodeSelector" where
  "hoverTargetSelection env n anc =
     (case n of
        None \<Rightarrow> Inr None
      | Some nd \<Rightarrow>
          (case isRow env (Some nd) of
             Inl e \<Rightarrow> Inl e
           | Inr r \<Rightarrow>
               Inr (Some \<lparr> target_id = node_id nd,
                     ancestorIds = map node_id (butlast anc),
                     target_hasInlineNeighbour = (if \<not> r then node_hasInlineNeighbour nd else None),
                     target_inline = (if \<not> r then node_inline nd else None),
                     levels = getDropLevels env nd anc,
                     pluginId = (if \<not> r then map_option pluginRef_id (node_plugin nd) else None) \<rparr>)))"

definition useNodeAsHoverTarget ::
  "('st, 'd, 'lv, 'dat, 'p) env \<Rightarrow> 'lv HoverTarget option option \<Rightarrow> 'st \<Rightarrow> string option
     \<Rightarrow> js_error + 'lv HoverTarget option" where
  "useNodeAsHoverTarget env latest state nodeId =
     useNodeProps env latest state nodeId (hoverTargetSelection env)"

text \<open>\<^verbatim>\<open>useNodeChildrenIds\<close>:
  \<^verbatim>\<open>isRow(node) ? node.cells?.map((c) => c.id) ?? [] : node.rows?.map((r) => r.id) ?? []\<close>.
  Both branches read a property of \<^verbatim>\<open>node\<close> itself, which throws when the node is null.\<close>

definition childrenIdsSelection ::
  "('st, 'd, 'lv, 'dat, 'p) env \<Rightarrow> ('d, string list) NodeSelector" where
  "childrenIdsSelection env n anc =
     (case isRow env n of
        Inl e \<Rightarrow> Inl e
      | Inr r \<Rightarrow>
          (case n of
             None \<Rightarrow> Inl TypeError
           | Some nd \<Rightarrow>
               if r then Inr (case node_cells nd of None \<Rightarrow> [] | Some cs \<Rightarrow> map cell_id cs)
               else Inr (case node_rows nd of None \<Rightarrow> [] | Some rs \<Rightarrow> map row_id rs)))"

definition useNodeChildrenIds ::
  "('st, 'd, 'lv, 'dat, 'p) env \<Rightarrow> string list option \<Rightarrow> 'st \<Rightarrow> string option
     \<Rightarrow> js_error + string list" where
  "useNodeChildrenIds env latest state nodeId =
     useNodeProps env latest state nodeId (childrenIdsSelection env)"

text \<open>\<^verbatim>\<open>useCellHasPlugin\<close>: the selector \<^verbatim>\<open>(c) => Boolean(c.plugin)\<close> reads a property of
  the cell it is given.\<close>

definition hasPluginSelection :: "('d, bool) CellSelector" where
  "hasPluginSelection c anc =
     (case c of
        None \<Rightarrow> Inl TypeError
      | Some cl \<Rightarrow> Inr (plugin cl \<noteq> None))"

definition useCellHasPlugin ::
  "('st, 'd, 'lv, 'dat, 'p) env \<Rightarrow> bool option \<Rightarrow> 'st \<Rightarrow> string option \<Rightarrow> js_error + bool option" where
  "useCellHasPlugin env latest state nodeId =
     useCellProps env latest state nodeId hasPluginSelection"

text \<open>\<^verbatim>\<open>useAllCellPluginsForNode\<close>: the node and its ancestors, root first, each reduced to
  its plugin id and its data in the current language (both null for a row and for a
  missing node), handed to \<^verbatim>\<open>getAvailablePlugins\<close> with the configured plugins.\<close>

definition ancestorInfoSelection ::
  "('st, 'd, 'lv, 'dat, 'p) env \<Rightarrow> ('d, 'dat ancestorInfo list) NodeSelector" where
  "ancestorInfoSelection env n anc =
     Inr (map (\<lambda>a. case a of
                 Some (CellNode c) \<Rightarrow>
                   \<lparr> info_pluginId = map_option pluginRef_id (plugin c),
                     info_data = getCellData env (Some c) (useLang env) \<rparr>
               | Some (RowNode r) \<Rightarrow> \<lparr> info_pluginId = None, info_data = None \<rparr>
               | None \<Rightarrow> \<lparr> info_pluginId = None, info_data = None \<rparr>)
            (rev (n # map Some anc)))"

definition useAllCellPluginsForNode ::
  "('st, 'd, 'lv, 'dat, 'p) env \<Rightarrow> 'dat ancestorInfo list option \<Rightarrow> 'st \<Rightarrow> string option
     \<Rightarrow> js_error + 'p cellPlugin_scheme list" where
  "useAllCellPluginsForNode env latest state parentNodeId =
     (case useNodeProps env latest state parentNodeId (ancestorInfoSelection env) of
        Inl e \<Rightarrow> Inl e
      | Inr anc \<Rightarrow> Inr (getAvailablePlugins env (useRenderOption_cellPlugins env) anc))"

text \<open>\<^verbatim>\<open>useCellIsAllowedHere\<close>. A drag item carries a partial cell, whose plugin is a
  plugin id, a plugin reference or absent.\<close>

datatype pluginOrId = PluginId string | PluginRef pluginRef

record partialCell =
  partialCell_plugin :: "pluginOrId option"

record 'y CellDrag =
  cell :: "'y partialCell_scheme option"

text \<open>\<^verbatim>\<open>!plugin\<close>: absent, or the empty string.\<close>

fun plugin_falsy :: "pluginOrId option \<Rightarrow> bool" where
  "plugin_falsy None = True"
| "plugin_falsy (Some (PluginId s)) = (s = [])"
| "plugin_falsy (Some (PluginRef p)) = False"

text \<open>\<^verbatim>\<open>typeof item.cell?.plugin === 'string' ? item.cell.plugin : item.cell?.plugin.id\<close>:
  the chain \<^verbatim>\<open>item.cell?.plugin.id\<close> stops early only when \<^verbatim>\<open>item.cell\<close> is null; on a
  cell without plugin it reads \<^verbatim>\<open>id\<close> of \<^verbatim>\<open>undefined\<close>.\<close>

fun itemPluginId :: "pluginOrId option \<Rightarrow> js_error + string" where
  "itemPluginId (Some (PluginId s)) = Inr s"
| "itemPluginId (Some (PluginRef p)) = Inr (pluginRef_id p)"
| "itemPluginId None = Inl TypeError"

definition cellIsAllowed ::
  "'p cellPlugin_scheme list \<Rightarrow> ('y, 'x) CellDrag_scheme option \<Rightarrow> js_error + bool" where
  "cellIsAllowed availablePlugins item =
     (case (case item of None \<Rightarrow> None | Some i \<Rightarrow> cell i) of
        None \<Rightarrow> Inr False
      | Some c \<Rightarrow>
          (case itemPluginId (partialCell_plugin c) of
             Inl e \<Rightarrow> Inl e
           | Inr pid \<Rightarrow>
               Inr (plugin_falsy (partialCell_plugin c)
                    \<or> list_ex (\<lambda>p. cellPlugin_id p = pid) availablePlugins)))"

definition useCellIsAllowedHere ::
  "('st, 'd, 'lv, 'dat, 'p) env \<Rightarrow> 'dat ancestorInfo list option \<Rightarrow> 'st \<Rightarrow> string option
     \<Rightarrow> js_error + (('y, 'x) CellDrag_scheme option \<Rightarrow> js_error + bool)" where
  "useCellIsAllowedHere env latest state nodeId =
     (case useAllCellPluginsForNode env latest state nodeId of
        Inl e \<Rightarrow> Inl e
      | Inr availablePlugins \<Rightarrow> Inr (cellIsAllowed availablePlugins))"

section \<open>Debounced cell data\<close>

text \<open>
  Cell data is an object, a finite map from field names to values, or null. An object
  spread \<^verbatim>\<open>{...a, ...b}\<close> takes the fields of \<^verbatim>\<open>a\<close> and then those of \<^verbatim>\<open>b\<close>, which win;
  spreading null adds nothing.
\<close>

type_synonym 'v data = "(string \<rightharpoonup> 'v) option"

definition spread :: "'v data \<Rightarrow> (string \<rightharpoonup> 'v)" where
  "spread obj = (case obj of None \<Rightarrow> Map.empty | Some m \<Rightarrow> m)"

text \<open>
  What an instance of \<^verbatim>\<open>useDebouncedCellData\<close> holds: its two refs, the call of
  the debounced function that is waiting (with the options of the latest \<^verbatim>\<open>onChange\<close>),
  and the calls of \<^verbatim>\<open>updateCellData\<close> made so far.
\<close>

record ('v, 'o) debouncedCellData =
  dataRef :: "'v data"
  cellDataRef :: "'v data"
  pending :: "'o option"
  updateCellData_calls :: "('v data \<times> 'o) list"

definition mount :: "'v data \<Rightarrow> ('v, 'o) debouncedCellData" where
  "mount cellData =
     \<lparr> dataRef = cellData, cellDataRef = cellData, pending = None, updateCellData_calls = [] \<rparr>"

definition onChange ::
  "('v, 'o) debouncedCellData \<Rightarrow> 'v data \<Rightarrow> 'o \<Rightarrow> ('v, 'o) debouncedCellData" where
  "onChange st partialData options =
     st \<lparr> dataRef := Some (spread (dataRef st) ++ spread partialData), pending := Some options \<rparr>"

text \<open>The body of the debounced function, when its 200 ms have passed.\<close>

definition updateCellDataDebounced :: "('v, 'o) debouncedCellData \<Rightarrow> ('v, 'o) debouncedCellData" where
  "updateCellDataDebounced st =
     (case pending st of
        None \<Rightarrow> st
      | Some options \<Rightarrow>
          st \<lparr> cellDataRef := dataRef st,
               updateCellData_calls := updateCellData_calls st @ [(dataRef st, options)],
               pending := None \<rparr>)"

text \<open>The effect: cell data that changed outside overwrites whatever is pending.\<close>

definition changed :: "'v data \<Rightarrow> ('v, 'o) debouncedCellData \<Rightarrow> bool" where
  "changed cellData st = (\<not> deepEquals cellData (cellDataRef st))"

definition changedFromOutside ::
  "'v data \<Rightarrow> ('v, 'o) debouncedCellData \<Rightarrow> ('v, 'o) debouncedCellData" where
  "changedFromOutside cellData st =
     (if changed cellData st then st \<lparr> cellDataRef := cellData, dataRef := cellData \<rparr> else st)"

section \<open>Default values of a generated form\<close>

text \<open>
  The schema bridge, as far as \<^verbatim>\<open>getDefaultValue\<close> uses it: the names of the fields and
  the initial value of each. \<^verbatim>\<open>makeUniformsSchema\<close> is a parameter.
\<close>

record 'v bridge_t =
  getSubfields :: "string list"
  getInitialValue :: "string \<Rightarrow> 'v"

definition getDefaultValue :: "'v bridge_t \<Rightarrow> (string \<rightharpoonup> 'v)" where
  "getDefaultValue bridge =
     foldl (\<lambda>acc fieldName. acc ++ [fieldName \<mapsto> getInitialValue bridge fieldName])
       Map.empty (getSubfields bridge)"

definition newDefaultData :: "'v bridge_t \<Rightarrow> 'v data \<Rightarrow> (string \<rightharpoonup> 'v)" where
  "newDefaultData bridge data = getDefaultValue bridge ++ spread data"

text \<open>
  One render of \<^verbatim>\<open>AutoformControls\<close>, as the list of calls of \<^verbatim>\<open>onChange\<close> its effect
  makes. The effect depends on the bridge, which is memoized on the schema: it runs on
  mount (\<open>previous = None\<close>) and when the schema is not the one of the previous render.
  A schema stands for its identity here.
\<close>

definition AutoformControls ::
  "('s \<Rightarrow> 'v bridge_t) \<Rightarrow> 's option \<Rightarrow> 's \<Rightarrow> 'v data \<Rightarrow> (string \<rightharpoonup> 'v) list" where
  "AutoformControls makeUniformsSchema previous schema data =
     (if previous = Some schema then []
      else [newDefaultData (makeUniformsSchema schema) data])"

section \<open>Selections as objects\<close>

text \<open>
  What memoized selection saves is identity: a selection the selector has just computed
  is a new object, and a component renders again when the hook hands it another object
  than before. An object is an address with what it holds.
\<close>

record 'a object =
  address :: nat
  content :: 'a

text \<open>Modelled from the spec: \<^verbatim>\<open>deepEquals\<close> (utils/deepEquals) on two objects compares what
  they hold, not where they are.\<close>

definition deepEquals_object :: "'a object \<Rightarrow> 'a object \<Rightarrow> bool" where
  "deepEquals_object a b = deepEquals (content a) (content b)"

text \<open>Modelled from the spec: \<^verbatim>\<open>useSelector\<close> (reduxConnect), with the objects. The
  selector's result is a new object, at the address \<open>fresh\<close>; the hook returns the object
  it kept when the equality function accepts the new one against it, and the new one
  otherwise or when it kept none.\<close>

definition useSelector_object ::
  "('st \<Rightarrow> js_error + 'a) \<Rightarrow> ('a object \<Rightarrow> 'a object \<Rightarrow> bool) \<Rightarrow> 'a object option \<Rightarrow> nat
     \<Rightarrow> 'st \<Rightarrow> js_error + 'a object" where
  "useSelector_object selector equalityFn latest fresh state =
     (case selector state of
        Inl e \<Rightarrow> Inl e
      | Inr selected \<Rightarrow>
          (let newSelectedState = \<lparr> address = fresh, content = selected \<rparr> in
           case latest of
             None \<Rightarrow> Inr newSelectedState
           | Some latestSelectedState \<Rightarrow>
               if equalityFn newSelectedState latestSelectedState
               then Inr latestSelectedState else Inr newSelectedState))"

text \<open>\<^verbatim>\<open>useNodeProps\<close> with the objects: the same selection function, and \<^verbatim>\<open>deepEquals\<close> as
  the equality function, as in the source.\<close>

definition useNodeProps_object ::
  "('st, 'd, 'lv, 'dat, 'p) env \<Rightarrow> 'a object option \<Rightarrow> nat \<Rightarrow> 'st \<Rightarrow> string option
     \<Rightarrow> ('d, 'a) NodeSelector \<Rightarrow> js_error + 'a object" where
  "useNodeProps_object env latest fresh state nodeId selector =
     useSelector_object (nodeSelection env nodeId selector) deepEquals_object latest fresh state"

section \<open>A small document\<close>

text \<open>A document with one row of two cells, in a store that is a table from node ids to
  nodes with their ancestors, and an environment over it.\<close>

definition example_row :: "unit row" where
  "example_row =
     Row ''r1''
       [Cell ''c1'' None (Some \<lparr> pluginRef_id = ''text'', version = 1 \<rparr>) None None (Some 6) (),
        Cell ''c2'' (Some [Row ''r2'' []]) None None (Some ''left'') None ()]"

definition example_root :: "unit cell" where
  "example_root = Cell ''doc'' (Some [example_row]) None None None None ()"

definition example_store :: "string \<rightharpoonup> unit nodeWithAncestors" where
  "example_store =
     [''r1'' \<mapsto> \<lparr> node = RowNode example_row, ancestors = [CellNode example_root] \<rparr>,
      ''c1'' \<mapsto>
        \<lparr> node = CellNode (Cell ''c1'' None (Some \<lparr> pluginRef_id = ''text'', version = 1 \<rparr>)
                   None None (Some 6) ()),
          ancestors = [RowNode example_row, CellNode example_root] \<rparr>]"

text \<open>The same store after the cells of the row have been removed.\<close>

definition example_store_changed :: "string \<rightharpoonup> unit nodeWithAncestors" where
  "example_store_changed =
     example_store(''r1'' \<mapsto> \<lparr> node = RowNode (Row ''r1'' []), ancestors = [CellNode example_root] \<rparr>)"

definition example_env :: "(string \<rightharpoonup> unit nodeWithAncestors, unit, nat, unit, unit) env" where
  "example_env =
     \<lparr> findNodeInState = (\<lambda>state nodeId. case nodeId of None \<Rightarrow> None | Some i \<Rightarrow> state i),
       isRow_null = Inr False,
       getDropLevels = (\<lambda>n anc. length anc),
       getCellData = (\<lambda>c lang. None),
       getAvailablePlugins = (\<lambda>plugins anc. plugins),
       useLang = ''en'',
       useRenderOption_cellPlugins = [\<lparr> cellPlugin_id = ''text'' \<rparr>] \<rparr>"

text \<open>A schema bridge with two fields.\<close>

definition example_bridge :: "string \<Rightarrow> string bridge_t" where
  "example_bridge schema =
     \<lparr> getSubfields = [''title'', ''align''], getInitialValue = (\<lambda>fieldName. ''default'') \<rparr>"

section \<open>Properties\<close>

lemma useSelector_deepEquals: "useSelector selector deepEquals latest state = selector state"
  by (simp add: useSelector_def deepEquals_def split: sum.splits option.splits)

lemma useNodeProps_selection:
  "useNodeProps env latest state nodeId selector = nodeSelection env nodeId selector state"
  by (simp add: useNodeProps_def useSelector_deepEquals)

text \<open>
  Claim C1. Node selection is deep-equality memoized. Take two store states in which the
  selector gives slices \<open>slice1\<close> and \<open>slice2\<close>. The hook run in the first state returns
  an object \<open>r\<close> that holds a selection \<open>deepEquals\<close>-equal to \<open>slice1\<close> (the content
  \<open>useNodeProps\<close> returns there). Run next in the second state, where the selector has
  made a new object at \<open>fresh2\<close>, the hook returns the very object \<open>r\<close> again when the
  slices are \<open>deepEquals\<close>-equal, whatever else differs between the states, and the new
  object otherwise: which object it returns depends on the deep-equality class of the
  selected slice only.
\<close>

theorem useNodeProps_deepEquals_memoized:
  assumes "nodeSelection env nodeId selector state1 = Inr slice1"
    and "nodeSelection env nodeId selector state2 = Inr slice2"
  shows "\<exists>r. useNodeProps_object env latest fresh1 state1 nodeId selector = Inr r
           \<and> deepEquals (content r) slice1
           \<and> useNodeProps env (map_option content latest) state1 nodeId selector = Inr (content r)
           \<and> useNodeProps_object env (Some r) fresh2 state2 nodeId selector
               = Inr (if deepEquals slice1 slice2 then r
                      else \<lparr> address = fresh2, content = slice2 \<rparr>)"
proof (cases latest)
  case None
  with assms show ?thesis
    by (auto simp: useNodeProps_object_def useSelector_object_def deepEquals_object_def
        deepEquals_def useNodeProps_selection)
next
  case (Some kept)
  with assms show ?thesis
    by (cases "slice1 = content kept")
      (auto simp: useNodeProps_object_def useSelector_object_def deepEquals_object_def
        deepEquals_def useNodeProps_selection)
qed

theorem useNodeProps_deepEquals_memoized_witness:
  "nodeSelection example_env (Some ''r1'') (childrenIdsSelection example_env) example_store
     = Inr [''c1'', ''c2'']
   \<and> nodeSelection example_env (Some ''r1'') (childrenIdsSelection example_env)
       (example_store(''c1'' := None)) = Inr [''c1'', ''c2'']
   \<and> nodeSelection example_env (Some ''r1'') (childrenIdsSelection example_env)
       example_store_changed = Inr []
   \<and> useNodeProps_object example_env None 1 example_store (Some ''r1'')
       (childrenIdsSelection example_env) = Inr \<lparr> address = 1, content = [''c1'', ''c2''] \<rparr>
   \<and> useNodeProps_object example_env (Some \<lparr> address = 1, content = [''c1'', ''c2''] \<rparr>) 2
       (example_store(''c1'' := None)) (Some ''r1'') (childrenIdsSelection example_env)
       = Inr \<lparr> address = 1, content = [''c1'', ''c2''] \<rparr>
   \<and> useNodeProps_object example_env (Some \<lparr> address = 1, content = [''c1'', ''c2''] \<rparr>) 2
       example_store_changed (Some ''r1'') (childrenIdsSelection example_env)
       = Inr \<lparr> address = 2, content = [] \<rparr>"
proof -
  have 1: "nodeSelection example_env (Some ''r1'') (childrenIdsSelection example_env) example_store
     = Inr [''c1'', ''c2'']"
    by (simp add: nodeSelection_def childrenIdsSelection_def example_env_def example_store_def
        example_row_def)
  have 2: "nodeSelection example_env (Some ''r1'') (childrenIdsSelection example_env)
       (example_store(''c1'' := None)) = Inr [''c1'', ''c2'']"
    by (simp add: nodeSelection_def childrenIdsSelection_def example_env_def example_store_def
        example_row_def)
  have 3: "nodeSelection example_env (Some ''r1'') (childrenIdsSelection example_env)
       example_store_changed = Inr []"
    by (simp add: nodeSelection_def childrenIdsSelection_def example_env_def
        example_store_changed_def)
  have 4: "useNodeProps_object example_env None 1 example_store (Some ''r1'')
       (childrenIdsSelection example_env) = Inr \<lparr> address = 1, content = [''c1'', ''c2''] \<rparr>"
    by (simp add: useNodeProps_object_def useSelector_object_def 1)
  from useNodeProps_deepEquals_memoized [OF 1 2, of None 1 2]
    useNodeProps_deepEquals_memoized [OF 1 3, of None 1 2] 1 2 3 4
  show ?thesis
    by (simp add: deepEquals_def)
qed

text \<open>
  Claim C2. For every node id and selector, \<open>useNodeProps\<close> returns \<open>selector(null, [])\<close>
  when \<open>findNodeInState\<close> finds no node with that id in the store state, and the selector
  applied to the found node and its ancestor list otherwise.
\<close>

theorem useNodeProps_selects:
  "(findNodeInState env state nodeId = None
      \<longrightarrow> useNodeProps env latest state nodeId selector = selector None [])
   \<and> (\<forall>result. findNodeInState env state nodeId = Some result
      \<longrightarrow> useNodeProps env latest state nodeId selector
            = selector (Some (node result)) (ancestors result))"
  by (simp add: useNodeProps_selection nodeSelection_def)

theorem useNodeProps_selects_witness:
  "findNodeInState example_env example_store (Some ''zz'') = None
   \<and> useNodeProps example_env None example_store (Some ''zz'')
        (\<lambda>n anc. Inr (map_option node_id n, length anc)) = Inr (None, 0)
   \<and> findNodeInState example_env example_store (Some ''r1'')
        = Some \<lparr> node = RowNode example_row, ancestors = [CellNode example_root] \<rparr>
   \<and> useNodeProps example_env (Some (None, 0)) example_store (Some ''r1'')
        (\<lambda>n anc. Inr (map_option node_id n, length anc)) = Inr (Some ''r1'', 1)"
  using useNodeProps_selects [of example_env example_store "Some ''zz''" None
      "\<lambda>n anc. Inr (map_option node_id n, length anc)"]
    useNodeProps_selects [of example_env example_store "Some ''r1''" "Some (None, 0)"
      "\<lambda>n anc. Inr (map_option node_id n, length anc)"]
  by (simp add: example_env_def example_store_def example_row_def)


text \<open>
  Claim C5. For every existing node, \<open>useNodeAsHoverTarget\<close> returns a hover target whose id
  is the node's id and whose \<open>ancestorIds\<close> are the ids of the node's ancestors without the
  last one (the root document); for a row the fields \<open>hasInlineNeighbour\<close>, \<open>inline\<close> and
  \<open>pluginId\<close> are null; for a node id with no node in the state the result is null.
\<close>

theorem useNodeAsHoverTarget_target:
  "(findNodeInState env state nodeId = None
      \<longrightarrow> useNodeAsHoverTarget env latest state nodeId = Inr None)
   \<and> (\<forall>result. findNodeInState env state nodeId = Some result
      \<longrightarrow> (\<exists>target. useNodeAsHoverTarget env latest state nodeId = Inr (Some target)
             \<and> target_id target = node_id (node result)
             \<and> ancestorIds target = map node_id (butlast (ancestors result))
             \<and> (\<forall>r. node result = RowNode r
                  \<longrightarrow> target_hasInlineNeighbour target = None
                      \<and> target_inline target = None
                      \<and> pluginId target = None)))"
proof (intro conjI allI impI)
  assume "findNodeInState env state nodeId = None"
  then show "useNodeAsHoverTarget env latest state nodeId = Inr None"
    by (simp add: useNodeAsHoverTarget_def useNodeProps_selection nodeSelection_def
        hoverTargetSelection_def)
next
  fix result
  assume found: "findNodeInState env state nodeId = Some result"
  show "\<exists>target. useNodeAsHoverTarget env latest state nodeId = Inr (Some target)
             \<and> target_id target = node_id (node result)
             \<and> ancestorIds target = map node_id (butlast (ancestors result))
             \<and> (\<forall>r. node result = RowNode r
                  \<longrightarrow> target_hasInlineNeighbour target = None
                      \<and> target_inline target = None
                      \<and> pluginId target = None)"
  proof (cases "node result")
    case (RowNode r)
    with found show ?thesis
      by (simp add: useNodeAsHoverTarget_def useNodeProps_selection nodeSelection_def
          hoverTargetSelection_def)
  next
    case (CellNode c)
    with found show ?thesis
      by (simp add: useNodeAsHoverTarget_def useNodeProps_selection nodeSelection_def
          hoverTargetSelection_def)
  qed
qed

theorem useNodeAsHoverTarget_target_witness:
  "findNodeInState example_env example_store (Some ''zz'') = None
   \<and> useNodeAsHoverTarget example_env None example_store (Some ''zz'') = Inr None
   \<and> findNodeInState example_env example_store (Some ''r1'')
        = Some \<lparr> node = RowNode example_row, ancestors = [CellNode example_root] \<rparr>
   \<and> (\<exists>target. useNodeAsHoverTarget example_env None example_store (Some ''r1'')
          = Inr (Some target)
        \<and> target_id target = ''r1'' \<and> ancestorIds target = []
        \<and> target_hasInlineNeighbour target = None \<and> target_inline target = None
        \<and> pluginId target = None)"
  using useNodeAsHoverTarget_target [of example_env example_store "Some ''zz''" None]
    useNodeAsHoverTarget_target [of example_env example_store "Some ''r1''" None]
  by (simp add: example_env_def example_store_def example_row_def)

text \<open>
  Claim C7. \<open>useNodeHoverPosition\<close> returns the hover position stored in the state exactly
  when the hovered node id of the state is the given node id, and null in every other
  case, also when no hover is recorded.
\<close>

theorem useNodeHoverPosition_hovered:
  "(\<forall>h. hover (reactPage state) = Some h \<and> hover_nodeId h = nodeId
        \<longrightarrow> useNodeHoverPosition latest state nodeId = Inr (Some (hover_position h)))
   \<and> ((\<forall>h. hover (reactPage state) = Some h \<longrightarrow> hover_nodeId h \<noteq> nodeId)
        \<longrightarrow> useNodeHoverPosition latest state nodeId = Inr None)"
  by (auto simp: useNodeHoverPosition_def useSelector_def refEquality_def
      hoverPositionSelection_def split: option.splits)

theorem useNodeHoverPosition_hovered_witness:
  "useNodeHoverPosition None
      \<lparr> reactPage = \<lparr> hover = Some \<lparr> hover_nodeId = ''c1'', hover_position = ''left-of'' \<rparr> \<rparr> \<rparr>
      ''c1'' = Inr (Some ''left-of'')
   \<and> useNodeHoverPosition (Some (Some ''above''))
      \<lparr> reactPage = \<lparr> hover = Some \<lparr> hover_nodeId = ''c1'', hover_position = ''left-of'' \<rparr> \<rparr> \<rparr>
      ''c2'' = Inr None
   \<and> useNodeHoverPosition (None :: string option option)
      \<lparr> reactPage = \<lparr> hover = None \<rparr> \<rparr> ''c1'' = Inr None"
  using useNodeHoverPosition_hovered [of
      "\<lparr> reactPage = \<lparr> hover = Some \<lparr> hover_nodeId = ''c1'', hover_position = ''left-of'' \<rparr> \<rparr> \<rparr>"
      "''c1''" None]
    useNodeHoverPosition_hovered [of
      "\<lparr> reactPage = \<lparr> hover = Some \<lparr> hover_nodeId = ''c1'', hover_position = ''left-of'' \<rparr> \<rparr> \<rparr>"
      "''c2''" "Some (Some ''above'')"]
    useNodeHoverPosition_hovered [of
      "\<lparr> reactPage = \<lparr> hover = None \<rparr> \<rparr>" "''c1''" "None :: string option option"]
  by simp

text \<open>
  Claim C9. For a falsy node id (null or the empty string) \<open>useCellProps\<close> returns null,
  whatever the store holds and whatever the selector does: neither is consulted.
\<close>

theorem useCellProps_falsy_nodeId:
  "falsy nodeId \<Longrightarrow> useCellProps env latest state nodeId selector = Inr None"
  by (simp add: useCellProps_def)

theorem useCellProps_falsy_nodeId_witness:
  "falsy (Some '''') \<and> falsy None
   \<and> useCellProps example_env (Some ()) example_store (Some '''') (\<lambda>c anc. Inl TypeError) = Inr None
   \<and> useCellProps example_env (None :: nat option) example_store None (\<lambda>c anc. Inr 0) = Inr None"
proof -
  have 1: "falsy (Some '''')" and 2: "falsy None"
    by (simp_all add: falsy_def)
  from useCellProps_falsy_nodeId [OF 1, of example_env "Some ()" example_store
      "\<lambda>c anc. Inl TypeError"]
    useCellProps_falsy_nodeId [OF 2, of example_env "None :: nat option" example_store
      "\<lambda>c anc. Inr 0"] 1 2
  show ?thesis
    by simp
qed


text \<open>
  The children of a node that exists: the ids of the cells of a row and of the rows of a
  cell, in stored order, and the empty list for a cell without rows.
\<close>

lemma useNodeChildrenIds_found:
  assumes "findNodeInState env state nodeId = Some result"
  shows "useNodeChildrenIds env latest state nodeId =
     Inr (case node result of
            RowNode r \<Rightarrow> map cell_id (cells r)
          | CellNode c \<Rightarrow> (case rows c of None \<Rightarrow> [] | Some rs \<Rightarrow> map row_id rs))"
  using assms
  by (cases "node result")
    (simp_all add: useNodeChildrenIds_def useNodeProps_selection nodeSelection_def
      childrenIdsSelection_def)

lemma js_error_TypeError: "(e :: js_error) = TypeError"
  by (cases e) simp

text \<open>
  Claim C6. \<open>useNodeChildrenIds\<close> is to return the ids of a row's cells, the ids of a
  cell's rows, and the empty list when the node is missing or has no children. For a node
  that exists it does (\<open>useNodeChildrenIds_found\<close>). For a missing node the selector is
  given null and reads \<open>node.cells\<close> or \<open>node.rows\<close> of it, whichever way \<open>isRow(null)\<close>
  goes: the hook throws a TypeError instead of returning the empty list.
\<close>

theorem useNodeChildrenIds_missing_throws:
  "findNodeInState env state nodeId = None
     \<Longrightarrow> useNodeChildrenIds env latest state nodeId = Inl TypeError"
  by (simp add: useNodeChildrenIds_def useNodeProps_selection nodeSelection_def
      childrenIdsSelection_def js_error_TypeError split: sum.splits)

theorem useNodeChildrenIds_missing_throws_witness:
  "findNodeInState example_env example_store (Some ''zz'') = None
   \<and> useNodeChildrenIds example_env None example_store (Some ''zz'') = Inl TypeError
   \<and> useNodeChildrenIds (example_env \<lparr> isRow_null := Inl TypeError \<rparr>) None example_store
        (Some ''zz'') = Inl TypeError"
proof -
  have 1: "findNodeInState example_env example_store (Some ''zz'') = None"
    by (simp add: example_env_def example_store_def)
  have 2: "findNodeInState (example_env \<lparr> isRow_null := Inl TypeError \<rparr>) example_store
      (Some ''zz'') = None"
    by (simp add: example_env_def example_store_def)
  from useNodeChildrenIds_missing_throws [OF 1, of None]
    useNodeChildrenIds_missing_throws [OF 2, of None] 1
  show ?thesis by simp
qed

text \<open>
  On a cell \<open>useCellHasPlugin\<close> tells whether the cell has a configured plugin.
\<close>

lemma useCellHasPlugin_cell:
  assumes "\<not> falsy nodeId"
    and "findNodeInState env state nodeId = Some result" and "node result = CellNode c"
  shows "useCellHasPlugin env latest state nodeId = Inr (Some (plugin c \<noteq> None))"
  using assms
  by (simp add: useCellHasPlugin_def useCellProps_def useNodeProps_selection nodeSelection_def
      cellSelection_def hasPluginSelection_def)

text \<open>
  Claim C8. \<open>useCellHasPlugin\<close> is to evaluate without error for every node id and to
  return false when the node is missing or is a row. \<open>useCellProps\<close> hands the selector
  null in both cases, and the selector \<open>(c) => Boolean(c.plugin)\<close> reads \<open>plugin\<close> of it:
  the hook throws a TypeError.
\<close>

theorem useCellHasPlugin_not_a_cell_throws:
  "\<not> falsy nodeId \<Longrightarrow>
   findNodeInState env state nodeId = None
     \<or> (\<exists>result r. findNodeInState env state nodeId = Some result \<and> node result = RowNode r)
   \<Longrightarrow> useCellHasPlugin env latest state nodeId = Inl TypeError"
  by (auto simp: useCellHasPlugin_def useCellProps_def useNodeProps_selection nodeSelection_def
      cellSelection_def hasPluginSelection_def)

theorem useCellHasPlugin_not_a_cell_throws_witness:
  "\<not> falsy (Some ''zz'') \<and> \<not> falsy (Some ''r1'')
   \<and> findNodeInState example_env example_store (Some ''zz'') = None
   \<and> findNodeInState example_env example_store (Some ''r1'')
        = Some \<lparr> node = RowNode example_row, ancestors = [CellNode example_root] \<rparr>
   \<and> useCellHasPlugin example_env None example_store (Some ''zz'') = Inl TypeError
   \<and> useCellHasPlugin example_env None example_store (Some ''r1'') = Inl TypeError"
proof -
  have 1: "\<not> falsy (Some ''zz'')" and 2: "\<not> falsy (Some ''r1'')"
    by (simp_all add: falsy_def)
  have 3: "findNodeInState example_env example_store (Some ''zz'') = None"
    by (simp add: example_env_def example_store_def)
  have 4: "findNodeInState example_env example_store (Some ''r1'')
        = Some \<lparr> node = RowNode example_row, ancestors = [CellNode example_root] \<rparr>"
    by (simp add: example_env_def example_store_def)
  have 5: "useCellHasPlugin example_env None example_store (Some ''zz'') = Inl TypeError"
    using useCellHasPlugin_not_a_cell_throws [OF 1, of example_env example_store None] 3
    by simp
  have 6: "useCellHasPlugin example_env None example_store (Some ''r1'') = Inl TypeError"
    using useCellHasPlugin_not_a_cell_throws [OF 2, of example_env example_store None] 4
    by simp
  from 1 2 3 4 5 6 show ?thesis by simp
qed


text \<open>
  The selector of \<open>useAllCellPluginsForNode\<close> guards every node it reads, so the hook
  always returns the plugins \<open>getAvailablePlugins\<close> computes, and \<open>useCellIsAllowedHere\<close>
  always returns its predicate over them.
\<close>

lemma useAllCellPluginsForNode_returns:
  "useAllCellPluginsForNode env latest state parentNodeId =
     Inr (getAvailablePlugins env (useRenderOption_cellPlugins env)
       (case findNodeInState env state parentNodeId of
          None \<Rightarrow> projr (ancestorInfoSelection env None [])
        | Some result \<Rightarrow>
            projr (ancestorInfoSelection env (Some (node result)) (ancestors result))))"
  by (simp add: useAllCellPluginsForNode_def useNodeProps_selection nodeSelection_def
      ancestorInfoSelection_def split: option.splits)

lemma useCellIsAllowedHere_returns:
  "\<exists>availablePlugins.
     useAllCellPluginsForNode env latest state nodeId = Inr availablePlugins
     \<and> useCellIsAllowedHere env latest state nodeId = Inr (cellIsAllowed availablePlugins)"
  by (simp add: useCellIsAllowedHere_def useAllCellPluginsForNode_returns)

text \<open>
  The predicate on a drag item without cell, and on one whose cell has a plugin: false
  for the first; for the second, true exactly when the plugin is the empty string or its
  id is the id of an available plugin.
\<close>

lemma cellIsAllowed_no_cell:
  "cellIsAllowed availablePlugins None = Inr False"
  "cell item = None \<Longrightarrow> cellIsAllowed availablePlugins (Some item) = Inr False"
  by (simp_all add: cellIsAllowed_def)

lemma cellIsAllowed_plugin:
  assumes "cell item = Some c" and "partialCell_plugin c = Some pl"
    and "itemPluginId (Some pl) = Inr pid"
  shows "cellIsAllowed availablePlugins (Some item) =
     Inr (pid = [] \<and> (\<exists>s. pl = PluginId s) \<or> pid \<in> cellPlugin_id ` set availablePlugins)"
  using assms by (cases pl) (auto simp: cellIsAllowed_def list_ex_iff intro: rev_image_eqI)

text \<open>
  Claim C4. The predicate returned by \<open>useCellIsAllowedHere\<close> is to return false for a
  drag item without cell and otherwise true exactly when the dragged cell has no plugin
  or its plugin id is among the plugins available at the parent node. On a dragged cell
  that has no plugin the predicate computes \<open>item.cell?.plugin.id\<close> before it tests
  \<open>!item.cell?.plugin\<close>, and throws a TypeError instead of returning true.
\<close>

theorem useCellIsAllowedHere_no_plugin_throws:
  "\<exists>isAllowed. useCellIsAllowedHere env latest state nodeId = Inr isAllowed
     \<and> isAllowed (Some \<lparr> cell = Some \<lparr> partialCell_plugin = None \<rparr> \<rparr>) = Inl TypeError"
  by (simp add: useCellIsAllowedHere_def useAllCellPluginsForNode_returns cellIsAllowed_def)

text \<open>
  Claim C3. The data binding of \<open>useDebouncedCellData\<close> updates partially: after
  \<open>onChange(partialData, options)\<close> the data is the previous data shallow-merged with
  \<open>partialData\<close>, so every field whose key is not present in \<open>partialData\<close> keeps its
  previous value.
\<close>

theorem onChange_partial_update:
  "dataRef (onChange st partialData options) = Some (spread (dataRef st) ++ spread partialData)
   \<and> (\<forall>fieldName. fieldName \<notin> dom (spread partialData)
        \<longrightarrow> spread (dataRef (onChange st partialData options)) fieldName
            = spread (dataRef st) fieldName)"
  by (simp add: onChange_def spread_def map_add_dom_app_simps split: option.splits)

theorem onChange_partial_update_witness:
  "dataRef (onChange (mount (Some [''title'' \<mapsto> ''a'', ''text'' \<mapsto> ''b''])) (Some [''text'' \<mapsto> ''c'']) ())
     = Some (spread (Some [''title'' \<mapsto> ''a'', ''text'' \<mapsto> ''b'']) ++ spread (Some [''text'' \<mapsto> ''c'']))
   \<and> ''title'' \<notin> dom (spread (Some [''text'' \<mapsto> ''c'']))
   \<and> spread (dataRef (onChange (mount (Some [''title'' \<mapsto> ''a'', ''text'' \<mapsto> ''b''])) 
         (Some [''text'' \<mapsto> ''c'']) ())) ''title'' = Some ''a''
   \<and> spread (dataRef (onChange (mount (Some [''title'' \<mapsto> ''a'', ''text'' \<mapsto> ''b''])) 
         (Some [''text'' \<mapsto> ''c'']) ())) ''text'' = Some ''c''"
  using onChange_partial_update [of "mount (Some [''title'' \<mapsto> ''a'', ''text'' \<mapsto> ''b''])"
      "Some [''text'' \<mapsto> ''c'']" "()"]
  by (simp add: mount_def spread_def)

text \<open>
  \<open>getDefaultValue\<close> gives every field of the schema its initial value, and nothing else.
\<close>

lemma foldl_defaults:
  "foldl (\<lambda>acc fieldName. acc(fieldName \<mapsto> f fieldName)) m fieldNames k =
     (if k \<in> set fieldNames then Some (f k) else m k)"
  by (induction fieldNames arbitrary: m) auto

lemma getDefaultValue_field:
  "getDefaultValue bridge k =
     (if k \<in> set (getSubfields bridge) then Some (getInitialValue bridge k) else None)"
  by (simp add: getDefaultValue_def foldl_defaults)

text \<open>
  Claim C10. On mount, and whenever the schema (and with it the bridge) changes,
  \<open>AutoformControls\<close> calls \<open>onChange\<close> once, with the initial values of the schema's fields
  shallow-merged under the existing data: a field the data has keeps the data's value, a
  field the data lacks has its initial value when the schema has the field, and is absent
  otherwise.
\<close>

theorem AutoformControls_defaults_under_data:
  "(previous \<noteq> Some schema \<longrightarrow>
      AutoformControls makeUniformsSchema previous schema data
        = [getDefaultValue (makeUniformsSchema schema) ++ spread data])
   \<and> (spread data fieldName = Some value
        \<longrightarrow> (getDefaultValue bridge ++ spread data) fieldName = Some value)
   \<and> (spread data fieldName = None
        \<longrightarrow> (getDefaultValue bridge ++ spread data) fieldName
            = (if fieldName \<in> set (getSubfields bridge)
               then Some (getInitialValue bridge fieldName) else None))"
  by (simp add: AutoformControls_def newDefaultData_def map_add_def getDefaultValue_field)

theorem AutoformControls_defaults_under_data_witness:
  "AutoformControls example_bridge None ''schema'' (Some [''title'' \<mapsto> ''Hello''])
     = [getDefaultValue (example_bridge ''schema'') ++ spread (Some [''title'' \<mapsto> ''Hello''])]
   \<and> (getDefaultValue (example_bridge ''schema'') ++ spread (Some [''title'' \<mapsto> ''Hello'']))
        ''title'' = Some ''Hello''
   \<and> (getDefaultValue (example_bridge ''schema'') ++ spread (Some [''title'' \<mapsto> ''Hello'']))
        ''align'' = Some ''default''
   \<and> (getDefaultValue (example_bridge ''schema'') ++ spread (Some [''title'' \<mapsto> ''Hello'']))
        ''other'' = None"
  using AutoformControls_defaults_under_data [of None "''schema''" example_bridge
      "Some [''title'' \<mapsto> ''Hello'']" "''title''" "''Hello''" "example_bridge ''schema''"]
    AutoformControls_defaults_under_data [of None "''schema''" example_bridge
      "Some [''title'' \<mapsto> ''Hello'']" "''align''" "''Hello''" "example_bridge ''schema''"]
    AutoformControls_defaults_under_data [of None "''schema''" example_bridge
      "Some [''title'' \<mapsto> ''Hello'']" "''other''" "''Hello''" "example_bridge ''schema''"]
  by (simp add: spread_def example_bridge_def)


end
